theory Spec2Isabelle
  imports Main
begin

section \<open>The Redis client factory (redisClient.js)\<close>

subsection \<open>The reconnect policy\<close>

text \<open>
  The client library calls \<open>retry_strategy\<close> with an object holding the last error (or
  none), the milliseconds spent retrying and the number of the attempt. The counters are
  whole numbers, so they are integers here. The error object is read only through its
  \<open>code\<close> property, which an error may lack.
\<close>

record conn_error =
  code :: "string option"

record retry_options =
  error :: "conn_error option"
  total_retry_time :: int
  attempt :: int

text \<open>
  What the policy returns: an \<open>Error\<close> object with its message (the library gives up and
  reports the error), \<open>undefined\<close> (the library gives up without reporting), or a number
  (the library reconnects after that many milliseconds).
\<close>

datatype retry_result = Error string | Undefined | Number int

text \<open>The guard \<open>options.error && options.error.code === 'ECONNREFUSED'\<close>.\<close>

definition connection_refused :: "retry_options \<Rightarrow> bool" where
  "connection_refused opts =
     (case error opts of
        None \<Rightarrow> False
      | Some e \<Rightarrow> code e = Some ''ECONNREFUSED'')"

definition retry_strategy :: "retry_options \<Rightarrow> retry_result" where
  "retry_strategy opts =
     (if connection_refused opts then Error ''The server refused the connection''
      else if total_retry_time opts > 1000 * 60 * 60 then Error ''Retry time exhausted''
      else if attempt opts > 10 then Undefined
      else Number (min (attempt opts * 100) 3000))"

subsection \<open>The connection options\<close>

text \<open>
  The module reads \<open>REDIS_PASSWORD\<close>, \<open>REDIS_URL\<close> and \<open>REDIS_CA\<close> from the process
  environment; a variable that is not set is \<open>undefined\<close> (\<open>None\<close>), and the destructuring
  gives the password and the certificate the default \<open>''\<close>.
\<close>

record redis_env =
  env_REDIS_PASSWORD :: "string option"
  env_REDIS_URL :: "string option"
  env_REDIS_CA :: "string option"

definition REDIS_PASSWORD :: "redis_env \<Rightarrow> string" where
  "REDIS_PASSWORD e = (case env_REDIS_PASSWORD e of None \<Rightarrow> [] | Some s \<Rightarrow> s)"

definition REDIS_CA :: "redis_env \<Rightarrow> string" where
  "REDIS_CA e = (case env_REDIS_CA e of None \<Rightarrow> [] | Some s \<Rightarrow> s)"

record tls_options =
  cert :: string
  ca :: "string list"

text \<open>
  The options object; a property that was never assigned is \<open>None\<close>. In \<open>redisOptions\<close>
  the block that assigns \<open>tls\<close> stands twice, as in the source.
\<close>

record client_options =
  no_ready_check :: bool
  enable_offline_queue :: bool
  retry_strategy_opt :: "retry_options \<Rightarrow> retry_result"
  password :: "string option"
  tls :: "tls_options option"

definition redisOptions :: "redis_env \<Rightarrow> client_options" where
  "redisOptions e =
     (let options = \<lparr>no_ready_check = True, enable_offline_queue = True,
                     retry_strategy_opt = retry_strategy, password = None, tls = None\<rparr>;
          options = (if REDIS_PASSWORD e \<noteq> []
                     then options\<lparr>password := Some (REDIS_PASSWORD e)\<rparr> else options);
          options = (if REDIS_CA e \<noteq> []
                     then options\<lparr>tls := Some \<lparr>cert = REDIS_CA e, ca = [REDIS_CA e]\<rparr>\<rparr>
                     else options);
          options = (if REDIS_CA e \<noteq> []
                     then options\<lparr>tls := Some \<lparr>cert = REDIS_CA e, ca = [REDIS_CA e]\<rparr>\<rparr>
                     else options)
      in options)"

text \<open>
  The builder the specification asks for: the same steps, with the block that assigns
  \<open>tls\<close> written once.
\<close>

definition redisOptions_single_tls :: "redis_env \<Rightarrow> client_options" where
  "redisOptions_single_tls e =
     (let options = \<lparr>no_ready_check = True, enable_offline_queue = True,
                     retry_strategy_opt = retry_strategy, password = None, tls = None\<rparr>;
          options = (if REDIS_PASSWORD e \<noteq> []
                     then options\<lparr>password := Some (REDIS_PASSWORD e)\<rparr> else options);
          options = (if REDIS_CA e \<noteq> []
                     then options\<lparr>tls := Some \<lparr>cert = REDIS_CA e, ca = [REDIS_CA e]\<rparr>\<rparr>
                     else options)
      in options)"

section \<open>The middleware set\<close>

subsection \<open>Environment, request and the effects of a handler\<close>

text \<open>
  The module reads four variables from the process environment. Only \<open>WHITELIST_IP\<close> has
  a default (\<open>''\<close>); \<open>APP_DOMAIN\<close>, \<open>NODE_ENV\<close> and \<open>PUBLIC_DOMAIN\<close> stay \<open>undefined\<close>
  (\<open>None\<close>) when they are not set.
\<close>

record mw_env =
  APP_DOMAIN :: "string option"
  NODE_ENV :: "string option"
  PUBLIC_DOMAIN :: "string option"
  env_WHITELIST_IP :: "string option"

definition WHITELIST_IP :: "mw_env \<Rightarrow> string" where
  "WHITELIST_IP e = (case env_WHITELIST_IP e of None \<Rightarrow> [] | Some s \<Rightarrow> s)"

text \<open>
  The request, as far as the middleware reads it. \<open>headers\<close> maps a lower-case header name
  to its value; \<open>req.header(name)\<close> and \<open>req.get(name)\<close> look the name up there, and every
  name the module asks for is lower-case already. \<open>req.ip\<close> may be \<open>undefined\<close>.
\<close>

record request =
  headers :: "string \<rightharpoonup> string"
  originalUrl :: string
  path :: string
  ip :: "string option"

definition req_get :: "request \<Rightarrow> string \<Rightarrow> string option" where
  "req_get req name = headers req name"

text \<open>
  What a handler does to the world: it writes to the response, calls \<open>next\<close> and logs.
  The state records the status code of the response (200 on a new response), the headers
  set on it, the body once \<open>res.send\<close> has sent it, the target once \<open>res.redirect\<close> has sent
  it, the number of calls of \<open>next\<close> and the lines logged.
\<close>

record effects =
  statusCode :: nat
  headers_set :: "(string \<times> string) list"
  sent_body :: "string option"
  redirected_to :: "string option"
  next_calls :: nat
  logged :: "string list"

definition new_response :: effects where
  "new_response =
     \<lparr>statusCode = 200, headers_set = [], sent_body = None, redirected_to = None,
      next_calls = 0, logged = []\<rparr>"

definition call_next :: "effects \<Rightarrow> effects" where
  "call_next st = st\<lparr>next_calls := Suc (next_calls st)\<rparr>"

definition res_status :: "nat \<Rightarrow> effects \<Rightarrow> effects" where
  "res_status c st = st\<lparr>statusCode := c\<rparr>"

definition res_send :: "string \<Rightarrow> effects \<Rightarrow> effects" where
  "res_send b st = st\<lparr>sent_body := Some b\<rparr>"

definition res_redirect :: "nat \<Rightarrow> string \<Rightarrow> effects \<Rightarrow> effects" where
  "res_redirect c url st = st\<lparr>statusCode := c, redirected_to := Some url\<rparr>"

definition res_set :: "string \<Rightarrow> string \<Rightarrow> effects \<Rightarrow> effects" where
  "res_set name v st = st\<lparr>headers_set := headers_set st @ [(name, v)]\<rparr>"

definition logger_info :: "string \<Rightarrow> effects \<Rightarrow> effects" where
  "logger_info line st = st\<lparr>logged := logged st @ [line]\<rparr>"

text \<open>The response has been sent: by \<open>res.send\<close> or by \<open>res.redirect\<close>.\<close>

definition ended :: "effects \<Rightarrow> bool" where
  "ended st = (sent_body st \<noteq> None \<or> redirected_to st \<noteq> None)"

text \<open>A value inside a template literal: \<open>undefined\<close> is printed as the word.\<close>

definition template :: "string option \<Rightarrow> string" where
  "template v = (case v of None \<Rightarrow> ''undefined'' | Some s \<Rightarrow> s)"

subsection \<open>Force HTTPS\<close>

text \<open>
  The comparisons are \<open>!==\<close> and \<open>===\<close> on values that are strings or \<open>undefined\<close>, so they
  are equality on \<open>string option\<close>: \<open>undefined !== ''\<close> holds and
  \<open>undefined === undefined\<close> holds.
\<close>

definition isAppDomainOnProduction :: "mw_env \<Rightarrow> request \<Rightarrow> bool" where
  "isAppDomainOnProduction e req =
     (APP_DOMAIN e \<noteq> Some [] \<and>
      PUBLIC_DOMAIN e \<noteq> Some [] \<and>
      headers req ''host'' = APP_DOMAIN e)"

definition isNonSecurePublicDomainOnProduction :: "mw_env \<Rightarrow> request \<Rightarrow> bool" where
  "isNonSecurePublicDomainOnProduction e req =
     (PUBLIC_DOMAIN e \<noteq> Some [] \<and>
      headers req ''host'' = PUBLIC_DOMAIN e \<and>
      req_get req ''x-forwarded-proto'' \<noteq> Some ''https'')"

definition forceDomainSSL :: "mw_env \<Rightarrow> request \<Rightarrow> effects \<Rightarrow> effects" where
  "forceDomainSSL e req st =
     (if NODE_ENV e = Some ''local'' then call_next st
      else if NODE_ENV e = Some ''review'' \<or> NODE_ENV e = Some ''staging'' then
        (if req_get req ''x-forwarded-proto'' \<noteq> Some ''https''
         then res_redirect 302
                (''https://'' @ template (headers req ''host'') @ originalUrl req) st
         else call_next st)
      else if NODE_ENV e = Some ''production'' then
        (if isAppDomainOnProduction e req
         then res_redirect 302
                (''https://'' @ template (PUBLIC_DOMAIN e) @ originalUrl req) st
         else if isNonSecurePublicDomainOnProduction e req
         then res_redirect 302
                (''https://'' @ template (headers req ''host'') @ originalUrl req)
                (logger_info (''Insecure request to '' @ template (PUBLIC_DOMAIN e)) st)
         else call_next st)
      else call_next st)"

subsection \<open>Route exclusion and the security header\<close>

definition unless ::
  "(request \<Rightarrow> effects \<Rightarrow> effects) \<Rightarrow> string list \<Rightarrow> request \<Rightarrow> effects \<Rightarrow> effects" where
  "unless middleware paths req st =
     (let pathCheck = list_ex (\<lambda>p. p = path req) paths
      in if pathCheck then call_next st else middleware req st)"

definition middlewareSecurity :: "request \<Rightarrow> effects \<Rightarrow> effects" where
  "middlewareSecurity req st = call_next (res_set ''X-XSS-Protection'' ''1; mode=block'' st)"

subsection \<open>Sourcemap suppression\<close>

text \<open>
  \<open>req.path.match(/\.map$/i)\<close> searches the path for a place where the pattern matches.
  The pattern is a dot, then the letters m, a, p in either case, then the end of the
  input (the \<open>m\<close> flag is not set, so \<open>$\<close> is the end of the string only).
  \<open>match_at\<close> is the pattern tried at the start of a string; \<open>regex_dot_map\<close> tries it at
  every position, from left to right.
\<close>

fun match_at :: "string \<Rightarrow> bool" where
  "match_at [c1, c2, c3, c4] =
     (c1 = CHR ''.'' \<and>
      (c2 = CHR ''m'' \<or> c2 = CHR ''M'') \<and>
      (c3 = CHR ''a'' \<or> c3 = CHR ''A'') \<and>
      (c4 = CHR ''p'' \<or> c4 = CHR ''P''))"
| "match_at _ = False"

fun regex_dot_map :: "string \<Rightarrow> bool" where
  "regex_dot_map [] = match_at []"
| "regex_dot_map (c # cs) = (match_at (c # cs) \<or> regex_dot_map cs)"

definition skipMap :: "request \<Rightarrow> effects \<Rightarrow> effects" where
  "skipMap req st = (if regex_dot_map (path req) then res_send [] st else call_next st)"

subsection \<open>The IP whitelist\<close>

text \<open>
  \<open>s.split(',')\<close>: the pieces of \<open>s\<close> between its commas, in order. The empty string gives
  one empty piece, and a comma at either end gives an empty piece there.
\<close>

fun split_comma :: "string \<Rightarrow> string list" where
  "split_comma [] = [[]]"
| "split_comma (c # cs) =
     (if c = CHR '','' then [] # split_comma cs
      else (case split_comma cs of
              [] \<Rightarrow> [[c]]
            | w # ws \<Rightarrow> (c # w) # ws))"

text \<open>
  \<open>a || b\<close> on values that are strings or \<open>undefined\<close>: \<open>a\<close> unless it is \<open>undefined\<close> or the
  empty string, which are the falsy ones.
\<close>

definition js_or :: "string option \<Rightarrow> string option \<Rightarrow> string option" where
  "js_or a b = (case a of None \<Rightarrow> b | Some s \<Rightarrow> if s = [] then b else Some s)"

text \<open>\<open>xs.includes(v)\<close> on an array of strings: \<open>undefined\<close> is never an element.\<close>

definition array_includes :: "string list \<Rightarrow> string option \<Rightarrow> bool" where
  "array_includes xs v = (case v of None \<Rightarrow> False | Some s \<Rightarrow> s \<in> set xs)"

definition request_ip :: "request \<Rightarrow> string option" where
  "request_ip req = js_or (req_get req ''x-forwarded-for'') (ip req)"

definition whitelistIp :: "mw_env \<Rightarrow> request \<Rightarrow> effects \<Rightarrow> effects" where
  "whitelistIp e req st =
     (if WHITELIST_IP e = [] then call_next st
      else if array_includes (split_comma (WHITELIST_IP e)) (request_ip req) then call_next st
      else res_send ''Forbidden: Access is denied.'' (res_status 403 st))"

section \<open>Notions of the specification\<close>

text \<open>
  The lower-case form of an ASCII letter, and "the path ends in \<open>.map\<close>, in any case":
  its last four characters, in lower case, are \<open>.map\<close>.
\<close>

definition lower_char :: "char \<Rightarrow> char" where
  "lower_char c =
     (let n = (of_char c :: nat) in if 65 \<le> n \<and> n \<le> 90 then char_of (n + 32) else c)"

definition ends_in_dot_map :: "string \<Rightarrow> bool" where
  "ends_in_dot_map p =
     (4 \<le> length p \<and> map lower_char (drop (length p - 4) p) = ''.map'')"

text \<open>The strings of a list joined with commas: the inverse of splitting at commas.\<close>

fun join_comma :: "string list \<Rightarrow> string" where
  "join_comma [] = []"
| "join_comma [w] = w"
| "join_comma (w # v # ws) = w @ CHR '','' # join_comma (v # ws)"

text \<open>
  A handler that neither throws nor hangs does one of two things, once: it sends the
  response, or it calls \<open>next\<close>. \<open>continues_or_ends st st'\<close> says so of the effects \<open>st'\<close>
  that the handler leaves when it starts from \<open>st\<close>.
\<close>

definition continues_or_ends :: "effects \<Rightarrow> effects \<Rightarrow> bool" where
  "continues_or_ends st st' =
     (if ended st' then next_calls st' = next_calls st
      else next_calls st' = Suc (next_calls st))"

section \<open>Concrete inputs\<close>

definition refused_error :: conn_error where
  "refused_error = \<lparr>code = Some ''ECONNREFUSED''\<rparr>"

definition timeout_error :: conn_error where
  "timeout_error = \<lparr>code = Some ''ETIMEDOUT''\<rparr>"

definition production_env :: mw_env where
  "production_env =
     \<lparr>APP_DOMAIN = Some ''myapp.herokuapp.com'', NODE_ENV = Some ''production'',
      PUBLIC_DOMAIN = Some ''www.example.com'', env_WHITELIST_IP = Some ''1.2.3.4,5.6.7.8''\<rparr>"

definition production_env_empty_app :: mw_env where
  "production_env_empty_app =
     \<lparr>APP_DOMAIN = Some [], NODE_ENV = Some ''production'',
      PUBLIC_DOMAIN = Some ''www.example.com'', env_WHITELIST_IP = None\<rparr>"

definition production_env_unset_domains :: mw_env where
  "production_env_unset_domains =
     \<lparr>APP_DOMAIN = None, NODE_ENV = Some ''production'',
      PUBLIC_DOMAIN = None, env_WHITELIST_IP = None\<rparr>"

definition production_env_unset_public :: mw_env where
  "production_env_unset_public =
     \<lparr>APP_DOMAIN = Some ''myapp.herokuapp.com'', NODE_ENV = Some ''production'',
      PUBLIC_DOMAIN = None, env_WHITELIST_IP = None\<rparr>"

definition spaced_whitelist_env :: mw_env where
  "spaced_whitelist_env =
     \<lparr>APP_DOMAIN = None, NODE_ENV = None,
      PUBLIC_DOMAIN = None, env_WHITELIST_IP = Some ''1.2.3.4, 5.6.7.8''\<rparr>"

definition single_whitelist_env :: mw_env where
  "single_whitelist_env =
     \<lparr>APP_DOMAIN = None, NODE_ENV = None,
      PUBLIC_DOMAIN = None, env_WHITELIST_IP = Some ''1.2.3.4''\<rparr>"

definition app_domain_request :: request where
  "app_domain_request =
     \<lparr>headers = [''host'' \<mapsto> ''myapp.herokuapp.com'', ''x-forwarded-proto'' \<mapsto> ''https''],
      originalUrl = ''/login?next=%2F'', path = ''/login'', ip = Some ''10.0.0.7''\<rparr>"

definition public_http_request :: request where
  "public_http_request =
     \<lparr>headers = [''host'' \<mapsto> ''www.example.com'', ''x-forwarded-proto'' \<mapsto> ''http''],
      originalUrl = ''/'', path = ''/'', ip = Some ''10.0.0.7''\<rparr>"

definition no_host_request :: request where
  "no_host_request =
     \<lparr>headers = Map.empty, originalUrl = ''/'', path = ''/'', ip = Some ''10.0.0.7''\<rparr>"

definition forwarded_request :: "string \<Rightarrow> request" where
  "forwarded_request addr =
     \<lparr>headers = [''host'' \<mapsto> ''www.example.com'', ''x-forwarded-for'' \<mapsto> addr],
      originalUrl = ''/'', path = ''/'', ip = Some ''10.0.0.7''\<rparr>"

definition empty_forwarded_request :: request where
  "empty_forwarded_request =
     \<lparr>headers = [''x-forwarded-for'' \<mapsto> []],
      originalUrl = ''/'', path = ''/'', ip = Some ''1.2.3.4''\<rparr>"

definition sourcemap_request :: request where
  "sourcemap_request =
     \<lparr>headers = Map.empty, originalUrl = ''/app.js.map?v=2'', path = ''/app.js.map'',
      ip = Some ''10.0.0.7''\<rparr>"

definition upper_sourcemap_request :: request where
  "upper_sourcemap_request =
     \<lparr>headers = Map.empty, originalUrl = ''/APP.JS.MAP'', path = ''/APP.JS.MAP'',
      ip = None\<rparr>"

text \<open>A response whose status an earlier handler has set to 404 before passing on.\<close>

definition not_found_response :: effects where
  "not_found_response =
     \<lparr>statusCode = 404, headers_set = [], sent_body = None, redirected_to = None,
      next_calls = 0, logged = []\<rparr>"

section \<open>The reconnect policy: results\<close>

text \<open>
  C1, as stated: at attempt 11 the policy returns \<open>undefined\<close> whatever the error. It does
  not: the refused-connection test comes first, so a refused connection at attempt 11 is
  answered with an \<open>Error\<close>.
\<close>

theorem retry_attempt_11_refused_is_fatal:
  "retry_strategy \<lparr>error = Some refused_error, total_retry_time = 0, attempt = 11\<rparr>
     = Error ''The server refused the connection''
   \<and> retry_strategy \<lparr>error = Some refused_error, total_retry_time = 0, attempt = 11\<rparr>
     \<noteq> Undefined"
  by (simp add: retry_strategy_def connection_refused_def refused_error_def)

text \<open>
  C1, amended: when the attempt count exceeds 10, the error is not a refused connection and
  the cumulative retry time is at most one hour, the policy returns \<open>undefined\<close>: the
  client stops silently, with neither a delay nor an error.
\<close>

theorem retry_stops_after_10_attempts:
  assumes "attempt opts > 10"
    and "\<not> connection_refused opts"
    and "total_retry_time opts \<le> 3600000"
  shows "retry_strategy opts = Undefined"
  using assms by (simp add: retry_strategy_def)

theorem retry_stops_after_10_attempts_witness:
  "retry_strategy \<lparr>error = Some timeout_error, total_retry_time = 3600000, attempt = 11\<rparr>
     = Undefined"
  using retry_stops_after_10_attempts
    [of "\<lparr>error = Some timeout_error, total_retry_time = 3600000, attempt = 11\<rparr>"]
  by (simp add: connection_refused_def timeout_error_def)

text \<open>
  C2: when the last error has the code \<open>ECONNREFUSED\<close>, the policy returns an \<open>Error\<close>,
  whatever the attempt count and the cumulative retry time are: the test comes before
  the other two.
\<close>

theorem retry_refused_is_fatal:
  assumes "error opts = Some e"
    and "code e = Some ''ECONNREFUSED''"
  shows "retry_strategy opts = Error ''The server refused the connection''"
  using assms by (simp add: retry_strategy_def connection_refused_def)

theorem retry_refused_is_fatal_witness:
  "retry_strategy \<lparr>error = Some refused_error, total_retry_time = 4000000, attempt = 1\<rparr>
     = Error ''The server refused the connection''"
  using retry_refused_is_fatal
    [of "\<lparr>error = Some refused_error, total_retry_time = 4000000, attempt = 1\<rparr>"
        refused_error]
  by (simp add: refused_error_def)

text \<open>
  C3: for attempt counts from 1 to 10, an error that is not a refused connection and a
  cumulative retry time of at most one hour, the policy returns the delay
  \<open>min (attempt * 100) 3000\<close>; of two such inputs, the one with the larger attempt count
  gets a delay at least as long, and no delay exceeds 3000.
\<close>

theorem retry_backoff_delay:
  assumes "1 \<le> attempt a" and "attempt a \<le> attempt b" and "attempt b \<le> 10"
    and "\<not> connection_refused a" and "\<not> connection_refused b"
    and "total_retry_time a \<le> 3600000" and "total_retry_time b \<le> 3600000"
  shows "retry_strategy a = Number (min (attempt a * 100) 3000)
       \<and> retry_strategy b = Number (min (attempt b * 100) 3000)
       \<and> min (attempt a * 100) 3000 \<le> min (attempt b * 100) 3000
       \<and> min (attempt b * 100) 3000 \<le> 3000"
  using assms by (simp add: retry_strategy_def)

theorem retry_backoff_delay_witness:
  "retry_strategy \<lparr>error = None, total_retry_time = 500, attempt = 3\<rparr> = Number 300
   \<and> retry_strategy \<lparr>error = Some timeout_error, total_retry_time = 3600000, attempt = 10\<rparr>
       = Number 1000"
  using retry_backoff_delay
    [of "\<lparr>error = None, total_retry_time = 500, attempt = 3\<rparr>"
        "\<lparr>error = Some timeout_error, total_retry_time = 3600000, attempt = 10\<rparr>"]
  by (simp add: connection_refused_def timeout_error_def)

text \<open>
  C4: when the error is not a refused connection and the cumulative retry time is above
  3,600,000 ms, the policy returns an \<open>Error\<close>, whatever the attempt count.
\<close>

theorem retry_time_exhausted_is_fatal:
  assumes "\<not> connection_refused opts"
    and "total_retry_time opts > 3600000"
  shows "retry_strategy opts = Error ''Retry time exhausted''"
  using assms by (simp add: retry_strategy_def)

theorem retry_time_exhausted_is_fatal_witness:
  "retry_strategy \<lparr>error = None, total_retry_time = 3600001, attempt = 20\<rparr>
     = Error ''Retry time exhausted''"
  using retry_time_exhausted_is_fatal
    [of "\<lparr>error = None, total_retry_time = 3600001, attempt = 20\<rparr>"]
  by (simp add: connection_refused_def)

section \<open>The connection options: results\<close>

text \<open>
  C9: the options built with the \<open>tls\<close> block twice and with the block once are the same
  object, for every environment.
\<close>

theorem redisOptions_duplicate_tls_block:
  "redisOptions e = redisOptions_single_tls e"
  by (simp add: redisOptions_def redisOptions_single_tls_def Let_def)

section \<open>The middleware set: results\<close>

subsection \<open>Auxiliary facts\<close>

lemmas effect_defs = call_next_def res_redirect_def res_send_def res_status_def res_set_def
  logger_info_def

lemmas force_defs = forceDomainSSL_def isAppDomainOnProduction_def
  isNonSecurePublicDomainOnProduction_def req_get_def template_def

lemma forbidden_not_next: "res_send b (res_status c st) \<noteq> call_next st"
proof
  assume "res_send b (res_status c st) = call_next st"
  then have "next_calls (res_send b (res_status c st)) = next_calls (call_next st)"
    by simp
  then show False
    by (simp add: effect_defs)
qed

text \<open>Lower case, letter by letter: through the character codes.\<close>

lemma lower_char_eq_iff:
  "lower_char c = d \<longleftrightarrow>
     (if 65 \<le> (of_char c :: nat) \<and> (of_char c :: nat) \<le> 90
      then of_char c + 32 else of_char c) = (of_char d :: nat)"
proof -
  have "(of_char (lower_char c) :: nat) =
     (if 65 \<le> (of_char c :: nat) \<and> (of_char c :: nat) \<le> 90
      then of_char c + 32 else of_char c)"
    by (simp add: lower_char_def Let_def)
  then show ?thesis
    using of_char_eq_iff [of "lower_char c" d, where ?'a = nat] by simp
qed

lemma of_char_eq_nat: "(of_char c :: nat) = of_char d \<longleftrightarrow> c = d"
  by simp

lemma lower_char_dot: "lower_char c = CHR ''.'' \<longleftrightarrow> c = CHR ''.''"
proof -
  have "c = CHR ''.'' \<longleftrightarrow> (of_char c :: nat) = 46"
    using of_char_eq_nat [of c "CHR ''.''"] by simp
  then show ?thesis
    by (auto simp: lower_char_eq_iff)
qed

lemma lower_char_m: "lower_char c = CHR ''m'' \<longleftrightarrow> c = CHR ''m'' \<or> c = CHR ''M''"
proof -
  have "c = CHR ''m'' \<longleftrightarrow> (of_char c :: nat) = 109"
    and "c = CHR ''M'' \<longleftrightarrow> (of_char c :: nat) = 77"
    using of_char_eq_nat [of c "CHR ''m''"] of_char_eq_nat [of c "CHR ''M''"] by simp_all
  then show ?thesis
    by (auto simp: lower_char_eq_iff)
qed

lemma lower_char_a: "lower_char c = CHR ''a'' \<longleftrightarrow> c = CHR ''a'' \<or> c = CHR ''A''"
proof -
  have "c = CHR ''a'' \<longleftrightarrow> (of_char c :: nat) = 97"
    and "c = CHR ''A'' \<longleftrightarrow> (of_char c :: nat) = 65"
    using of_char_eq_nat [of c "CHR ''a''"] of_char_eq_nat [of c "CHR ''A''"] by simp_all
  then show ?thesis
    by (auto simp: lower_char_eq_iff)
qed

lemma lower_char_p: "lower_char c = CHR ''p'' \<longleftrightarrow> c = CHR ''p'' \<or> c = CHR ''P''"
proof -
  have "c = CHR ''p'' \<longleftrightarrow> (of_char c :: nat) = 112"
    and "c = CHR ''P'' \<longleftrightarrow> (of_char c :: nat) = 80"
    using of_char_eq_nat [of c "CHR ''p''"] of_char_eq_nat [of c "CHR ''P''"] by simp_all
  then show ?thesis
    by (auto simp: lower_char_eq_iff)
qed

text \<open>The pattern matches at the start of exactly the four-character spellings of \<open>.map\<close>.\<close>

lemma match_at_iff: "match_at s \<longleftrightarrow> length s = 4 \<and> map lower_char s = ''.map''"
  by (cases s rule: match_at.cases)
     (simp_all add: lower_char_dot lower_char_m lower_char_a lower_char_p)

text \<open>The search succeeds exactly when the pattern matches at the start of some suffix.\<close>

lemma regex_dot_map_iff: "regex_dot_map p \<longleftrightarrow> (\<exists>pre suf. p = pre @ suf \<and> match_at suf)"
proof (induction p)
  case Nil
  show ?case by simp
next
  case (Cons c cs)
  show ?case
  proof
    assume "regex_dot_map (c # cs)"
    then consider "match_at (c # cs)" | "regex_dot_map cs" by auto
    then show "\<exists>pre suf. c # cs = pre @ suf \<and> match_at suf"
    proof cases
      case 1
      then have "c # cs = [] @ (c # cs) \<and> match_at (c # cs)" by simp
      then show ?thesis by blast
    next
      case 2
      with Cons obtain pre suf where "cs = pre @ suf" "match_at suf" by blast
      then have "c # cs = (c # pre) @ suf \<and> match_at suf" by simp
      then show ?thesis by blast
    qed
  next
    assume "\<exists>pre suf. c # cs = pre @ suf \<and> match_at suf"
    then obtain pre suf where ps: "c # cs = pre @ suf" "match_at suf" by blast
    show "regex_dot_map (c # cs)"
    proof (cases pre)
      case Nil
      with ps have "match_at (c # cs)" by simp
      then show ?thesis by simp
    next
      case (Cons d pre')
      with ps have "cs = pre' @ suf" by simp
      with ps Cons.IH show ?thesis by auto
    qed
  qed
qed

lemma last_four:
  "(\<exists>pre suf. p = pre @ suf \<and> length suf = 4 \<and> Q suf) \<longleftrightarrow>
     (4 \<le> length p \<and> Q (drop (length p - 4) p))"
proof
  assume "\<exists>pre suf. p = pre @ suf \<and> length suf = 4 \<and> Q suf"
  then obtain pre suf where "p = pre @ suf" "length suf = 4" "Q suf" by blast
  then show "4 \<le> length p \<and> Q (drop (length p - 4) p)" by simp
next
  assume r: "4 \<le> length p \<and> Q (drop (length p - 4) p)"
  then have "p = take (length p - 4) p @ drop (length p - 4) p
             \<and> length (drop (length p - 4) p) = 4 \<and> Q (drop (length p - 4) p)"
    by simp
  then show "\<exists>pre suf. p = pre @ suf \<and> length suf = 4 \<and> Q suf" by blast
qed

lemma regex_dot_map_ends: "regex_dot_map p \<longleftrightarrow> ends_in_dot_map p"
  unfolding regex_dot_map_iff match_at_iff ends_in_dot_map_def
  using last_four [of p "\<lambda>suf. map lower_char suf = ''.map''"] by simp

lemma ends_in_dot_map_lower: "ends_in_dot_map ''/app.js.map''"
  unfolding regex_dot_map_ends [symmetric] by simp

lemma ends_in_dot_map_upper: "ends_in_dot_map ''/APP.JS.MAP''"
  unfolding regex_dot_map_ends [symmetric] by simp

lemma not_ends_in_dot_map_root: "\<not> ends_in_dot_map ''/''"
  unfolding regex_dot_map_ends [symmetric] by simp

lemma not_ends_in_dot_map_inner: "\<not> ends_in_dot_map ''/app.js.map/x''"
  unfolding regex_dot_map_ends [symmetric] by simp

text \<open>Splitting at commas: the pieces have no comma, and joined with commas they give
  the string back.\<close>

lemma split_comma_not_Nil: "split_comma s \<noteq> []"
  by (induction s) (auto split: list.splits)

lemma join_split_comma: "join_comma (split_comma s) = s"
proof (induction s)
  case Nil
  show ?case by simp
next
  case (Cons c s)
  obtain w ws where sp: "split_comma s = w # ws"
    using split_comma_not_Nil [of s] by (cases "split_comma s") auto
  show ?case
  proof (cases "c = CHR '',''")
    case True
    with Cons sp show ?thesis by simp
  next
    case False
    with Cons sp show ?thesis by (cases ws) auto
  qed
qed

lemma split_comma_no_comma: "w \<in> set (split_comma s) \<Longrightarrow> CHR '','' \<notin> set w"
  by (induction s arbitrary: w) (auto split: list.splits if_splits)

lemma array_includes_iff: "array_includes xs v \<longleftrightarrow> v \<in> Some ` set xs"
  by (auto simp: array_includes_def split: option.splits)

subsection \<open>Force HTTPS\<close>

text \<open>
  C5: in production mode, with the app domain and the public domain configured and not
  empty, a request whose \<open>host\<close> header is the app domain is answered with a redirect,
  status 302, to \<open>https://\<close> followed by the public domain and the original URL of the
  request; \<open>next\<close> is not called.
\<close>

theorem forceDomainSSL_app_domain_redirect:
  assumes "NODE_ENV e = Some ''production''"
    and "APP_DOMAIN e = Some a" and "a \<noteq> []"
    and "PUBLIC_DOMAIN e = Some p" and "p \<noteq> []"
    and "headers req ''host'' = Some a"
  shows "forceDomainSSL e req st = res_redirect 302 (''https://'' @ p @ originalUrl req) st
       \<and> statusCode (forceDomainSSL e req st) = 302
       \<and> redirected_to (forceDomainSSL e req st) = Some (''https://'' @ p @ originalUrl req)
       \<and> next_calls (forceDomainSSL e req st) = next_calls st"
  using assms by (simp add: force_defs effect_defs)

theorem forceDomainSSL_app_domain_redirect_witness:
  "forceDomainSSL production_env app_domain_request new_response
     = res_redirect 302 ''https://www.example.com/login?next=%2F'' new_response
   \<and> statusCode (forceDomainSSL production_env app_domain_request new_response) = 302
   \<and> redirected_to (forceDomainSSL production_env app_domain_request new_response)
       = Some ''https://www.example.com/login?next=%2F''
   \<and> next_calls (forceDomainSSL production_env app_domain_request new_response) = 0"
  using forceDomainSSL_app_domain_redirect
    [of production_env "''myapp.herokuapp.com''" "''www.example.com''" app_domain_request
        new_response]
  by (simp add: production_env_def app_domain_request_def new_response_def res_redirect_def)

text \<open>
  In production mode with the public domain set to the empty string, both tests of the
  Force-HTTPS middleware fail and every request is passed through, whatever the app
  domain is: a domain configured as \<open>''\<close> does degrade to passing through.
\<close>

lemma forceDomainSSL_empty_public_domain_passes:
  assumes "NODE_ENV e = Some ''production''" and "PUBLIC_DOMAIN e = Some []"
  shows "forceDomainSSL e req st = call_next st"
  using assms
  by (simp add: forceDomainSSL_def isAppDomainOnProduction_def
      isNonSecurePublicDomainOnProduction_def)

text \<open>
  C6: when a required domain value is empty or missing, the Force-HTTPS middleware passes
  every request through. The code does so for a domain set to \<open>''\<close>, and misses the domain
  that is missing. A variable that is not set is \<open>undefined\<close>, not \<open>''\<close>: unlike
  \<open>WHITELIST_IP\<close>, the two domains have no default, and \<open>undefined !== ''\<close> holds, so the
  guards let it through. Here the mode is production, the app domain is set and the
  public domain is not; a request to the app domain is not passed on but answered with a
  redirect, status 302, to the host \<open>undefined\<close>.
\<close>

theorem forceDomainSSL_unset_public_domain_redirects:
  "NODE_ENV production_env_unset_public = Some ''production''
   \<and> PUBLIC_DOMAIN production_env_unset_public = None
   \<and> forceDomainSSL production_env_unset_public app_domain_request new_response
       = res_redirect 302 ''https://undefined/login?next=%2F'' new_response
   \<and> next_calls (forceDomainSSL production_env_unset_public app_domain_request new_response)
       = 0
   \<and> forceDomainSSL production_env_unset_public app_domain_request new_response
       \<noteq> call_next new_response"
  by (simp add: force_defs effect_defs production_env_unset_public_def app_domain_request_def
      new_response_def)

text \<open>
  The same with neither domain set and a request that has no \<open>host\<close> header:
  \<open>undefined === undefined\<close> holds, and the request is redirected to the host \<open>undefined\<close>.
\<close>

lemma forceDomainSSL_unset_domains_no_host:
  "forceDomainSSL production_env_unset_domains no_host_request new_response
     = res_redirect 302 ''https://undefined/'' new_response"
  by (simp add: force_defs production_env_unset_domains_def no_host_request_def)

text \<open>
  The other modes do not read the domains. In review and staging mode every request that
  is not HTTPS is redirected to the HTTPS address of the same host; in local mode and in
  a mode the middleware does not know, every request is passed through.
\<close>

lemma forceDomainSSL_staging_redirect:
  assumes "NODE_ENV e = Some ''review'' \<or> NODE_ENV e = Some ''staging''"
    and "headers req ''x-forwarded-proto'' \<noteq> Some ''https''"
  shows "forceDomainSSL e req st =
           res_redirect 302
             (''https://'' @ template (headers req ''host'') @ originalUrl req) st"
  using assms by (auto simp: forceDomainSSL_def req_get_def)

lemma forceDomainSSL_other_modes:
  assumes "NODE_ENV e \<noteq> Some ''review''" and "NODE_ENV e \<noteq> Some ''staging''"
    and "NODE_ENV e \<noteq> Some ''production''"
  shows "forceDomainSSL e req st = call_next st"
  using assms by (simp add: forceDomainSSL_def)

text \<open>
  In production mode with the app domain empty and the public domain set, a request to
  the public domain that is not HTTPS is still redirected, and the insecure access is
  logged.
\<close>

lemma forceDomainSSL_empty_app_domain_public_redirect:
  "forceDomainSSL production_env_empty_app public_http_request new_response
     = res_redirect 302 ''https://www.example.com/''
         (logger_info ''Insecure request to www.example.com'' new_response)"
  by (simp add: force_defs production_env_empty_app_def public_http_request_def)

text \<open>
  Started on a response that has not been sent, every middleware of the module does one
  of two things, once: it sends the response, or it calls \<open>next\<close>. The route exclusion
  wrapper keeps the property of the middleware it wraps.
\<close>

lemma handlers_continue_or_end:
  assumes "\<not> ended st"
  shows "continues_or_ends st (forceDomainSSL e req st)"
    and "continues_or_ends st (middlewareSecurity req st)"
    and "continues_or_ends st (skipMap req st)"
    and "continues_or_ends st (whitelistIp e req st)"
  using assms
  by (simp_all add: continues_or_ends_def ended_def force_defs middlewareSecurity_def
      skipMap_def whitelistIp_def effect_defs)

lemma unless_continues_or_ends:
  assumes "\<not> ended st"
    and "continues_or_ends st (middleware req st)"
  shows "continues_or_ends st (unless middleware paths req st)"
  using assms by (simp add: unless_def continues_or_ends_def ended_def call_next_def)

text \<open>
  A middleware of this module that passes the request on leaves the status code of the
  response as it found it: down a chain of them, the status is still the one the
  response was created with.
\<close>

lemma passing_on_keeps_status:
  "\<not> ended (forceDomainSSL e req st) \<longrightarrow>
     statusCode (forceDomainSSL e req st) = statusCode st"
  "statusCode (middlewareSecurity req st) = statusCode st"
  "statusCode (skipMap req st) = statusCode st"
  "\<not> ended (whitelistIp e req st) \<longrightarrow> statusCode (whitelistIp e req st) = statusCode st"
  by (simp_all add: ended_def force_defs middlewareSecurity_def skipMap_def whitelistIp_def
      effect_defs)

subsection \<open>Sourcemap suppression\<close>

text \<open>
  C8, as stated: a request whose path ends in \<open>.map\<close> is answered with status 200,
  whatever else holds. It is not when the response comes with another status: the
  middleware calls \<open>res.send('')\<close> and never sets the status, so on a response whose
  status is 404 the empty body goes out with status 404.
\<close>

theorem skipMap_keeps_status_404:
  "ends_in_dot_map (path sourcemap_request)
   \<and> sent_body (skipMap sourcemap_request not_found_response) = Some []
   \<and> statusCode (skipMap sourcemap_request not_found_response) = 404
   \<and> statusCode (skipMap sourcemap_request not_found_response) \<noteq> 200"
  using ends_in_dot_map_lower
  by (simp add: skipMap_def regex_dot_map_ends res_send_def sourcemap_request_def
      not_found_response_def)

text \<open>
  C8, amended: a request whose path ends in \<open>.map\<close>, in any case, is answered with an
  empty body under the status the response already has (200 on a response whose status
  nothing has changed), and \<open>next\<close> is not called; this depends on nothing but the path.
  A request with any other path is passed to \<open>next\<close>.
\<close>

theorem skipMap_answers_sourcemaps:
  "(ends_in_dot_map (path req) \<longrightarrow>
      skipMap req st = res_send [] st
    \<and> statusCode (skipMap req st) = statusCode st
    \<and> sent_body (skipMap req st) = Some []
    \<and> next_calls (skipMap req st) = next_calls st)
   \<and> (\<not> ends_in_dot_map (path req) \<longrightarrow> skipMap req st = call_next st)"
  by (simp add: skipMap_def regex_dot_map_ends res_send_def)

theorem skipMap_answers_sourcemaps_witness:
  "statusCode (skipMap sourcemap_request new_response) = 200
   \<and> sent_body (skipMap sourcemap_request new_response) = Some []
   \<and> next_calls (skipMap sourcemap_request new_response) = 0
   \<and> sent_body (skipMap upper_sourcemap_request new_response) = Some []
   \<and> skipMap no_host_request new_response = call_next new_response"
  using skipMap_answers_sourcemaps [of sourcemap_request new_response]
    skipMap_answers_sourcemaps [of upper_sourcemap_request new_response]
    skipMap_answers_sourcemaps [of no_host_request new_response]
    ends_in_dot_map_lower ends_in_dot_map_upper not_ends_in_dot_map_root
  by (simp add: new_response_def sourcemap_request_def upper_sourcemap_request_def
      no_host_request_def res_send_def)

subsection \<open>The IP whitelist\<close>

text \<open>
  C7: with a whitelist that is configured and not empty, a request whose IP (the
  \<open>x-forwarded-for\<close> header, or else the connection's IP) is none of the strings between
  the commas of the whitelist is answered with status 403 and the body
  \<open>Forbidden: Access is denied.\<close>, and \<open>next\<close> is not called.
\<close>

theorem whitelistIp_forbidden:
  assumes "WHITELIST_IP e \<noteq> []"
    and "request_ip req \<notin> Some ` set (split_comma (WHITELIST_IP e))"
  shows "whitelistIp e req st = res_send ''Forbidden: Access is denied.'' (res_status 403 st)
       \<and> statusCode (whitelistIp e req st) = 403
       \<and> sent_body (whitelistIp e req st) = Some ''Forbidden: Access is denied.''
       \<and> next_calls (whitelistIp e req st) = next_calls st"
  using assms by (simp add: whitelistIp_def array_includes_iff res_send_def res_status_def)

theorem whitelistIp_forbidden_witness:
  "statusCode (whitelistIp production_env (forwarded_request ''9.9.9.9'') new_response) = 403
   \<and> sent_body (whitelistIp production_env (forwarded_request ''9.9.9.9'') new_response)
       = Some ''Forbidden: Access is denied.''
   \<and> next_calls (whitelistIp production_env (forwarded_request ''9.9.9.9'') new_response) = 0"
  using whitelistIp_forbidden
    [of production_env "forwarded_request ''9.9.9.9''" new_response]
  by (simp add: production_env_def forwarded_request_def new_response_def WHITELIST_IP_def
      request_ip_def js_or_def req_get_def res_send_def res_status_def)

text \<open>
  C10, as stated: the IP compared is the value of the \<open>x-forwarded-for\<close> header when the
  header is present. It is not when the header is present and empty: the empty string is
  falsy, so \<open>||\<close> takes the connection's IP. Here the whitelist is \<open>1.2.3.4\<close>, the header
  is present with the empty value, which is not in the list, and the connection's IP is
  \<open>1.2.3.4\<close>: the request is passed to \<open>next\<close>.
\<close>

theorem whitelistIp_empty_forwarded_header_uses_connection_ip:
  "WHITELIST_IP single_whitelist_env = ''1.2.3.4''
   \<and> headers empty_forwarded_request ''x-forwarded-for'' = Some []
   \<and> [] \<notin> set (split_comma (WHITELIST_IP single_whitelist_env))
   \<and> whitelistIp single_whitelist_env empty_forwarded_request new_response
       = call_next new_response"
  by (simp add: single_whitelist_env_def empty_forwarded_request_def new_response_def
      WHITELIST_IP_def whitelistIp_def array_includes_iff request_ip_def js_or_def req_get_def)

text \<open>
  C10, amended. With a whitelist that is configured and not empty, the request is passed
  to \<open>next\<close> exactly when the IP compared is equal, character for character, to one of
  the pieces of the whitelist string between its commas; otherwise it is answered with
  403. The pieces are cut at commas only and are not trimmed: none of them has a comma,
  and joined with commas they are the whitelist string again. The IP compared is the
  value of the \<open>x-forwarded-for\<close> header when the header is present and not empty, and
  the connection's IP otherwise.
\<close>

theorem whitelistIp_membership:
  assumes "WHITELIST_IP e \<noteq> []"
  shows "(\<forall>h. headers req ''x-forwarded-for'' = Some h \<and> h \<noteq> [] \<longrightarrow>
            (whitelistIp e req st = call_next st \<longleftrightarrow>
               h \<in> set (split_comma (WHITELIST_IP e))))
       \<and> (headers req ''x-forwarded-for'' = None \<or> headers req ''x-forwarded-for'' = Some []
            \<longrightarrow>
            (whitelistIp e req st = call_next st \<longleftrightarrow>
               (\<exists>a. ip req = Some a \<and> a \<in> set (split_comma (WHITELIST_IP e)))))
       \<and> (whitelistIp e req st \<noteq> call_next st \<longrightarrow>
            whitelistIp e req st
              = res_send ''Forbidden: Access is denied.'' (res_status 403 st))
       \<and> join_comma (split_comma (WHITELIST_IP e)) = WHITELIST_IP e
       \<and> (\<forall>w \<in> set (split_comma (WHITELIST_IP e)). CHR '','' \<notin> set w)"
proof -
  let ?wl = "split_comma (WHITELIST_IP e)"
  have pass: "whitelistIp e req st = call_next st \<longleftrightarrow> request_ip req \<in> Some ` set ?wl"
    using assms forbidden_not_next [of "''Forbidden: Access is denied.''" 403 st]
    by (simp add: whitelistIp_def array_includes_iff)
  have 1: "\<forall>h. headers req ''x-forwarded-for'' = Some h \<and> h \<noteq> [] \<longrightarrow>
            (whitelistIp e req st = call_next st \<longleftrightarrow> h \<in> set ?wl)"
    unfolding pass by (auto simp: request_ip_def js_or_def req_get_def)
  have 2: "headers req ''x-forwarded-for'' = None \<or> headers req ''x-forwarded-for'' = Some []
            \<longrightarrow>
            (whitelistIp e req st = call_next st \<longleftrightarrow>
               (\<exists>a. ip req = Some a \<and> a \<in> set ?wl))"
    unfolding pass by (auto simp: request_ip_def js_or_def req_get_def)
  have 3: "whitelistIp e req st \<noteq> call_next st \<longrightarrow>
            whitelistIp e req st
              = res_send ''Forbidden: Access is denied.'' (res_status 403 st)"
    by (simp add: whitelistIp_def)
  have 4: "join_comma ?wl = WHITELIST_IP e"
    by (rule join_split_comma)
  have 5: "\<forall>w \<in> set ?wl. CHR '','' \<notin> set w"
    using split_comma_no_comma by blast
  from 1 2 3 4 5 show ?thesis by blast
qed

theorem whitelistIp_membership_witness:
  "split_comma (WHITELIST_IP spaced_whitelist_env) = [''1.2.3.4'', '' 5.6.7.8'']
   \<and> whitelistIp spaced_whitelist_env (forwarded_request ''5.6.7.8'') new_response
       = res_send ''Forbidden: Access is denied.'' (res_status 403 new_response)
   \<and> whitelistIp spaced_whitelist_env (forwarded_request ''1.2.3.4'') new_response
       = call_next new_response
   \<and> whitelistIp single_whitelist_env empty_forwarded_request new_response
       = call_next new_response"
  using whitelistIp_membership
      [of spaced_whitelist_env "forwarded_request ''5.6.7.8''" new_response]
    whitelistIp_membership
      [of spaced_whitelist_env "forwarded_request ''1.2.3.4''" new_response]
    whitelistIp_membership
      [of single_whitelist_env empty_forwarded_request new_response]
  by (simp add: spaced_whitelist_env_def single_whitelist_env_def forwarded_request_def
      empty_forwarded_request_def WHITELIST_IP_def)

end
